theory Spec2Isabelle
  imports Complex_Main "HOL-Library.Sublist"
begin

section \<open>JavaScript values\<close>

text \<open>
  The script works on values that come out of \<^verbatim>\<open>response.json()\<close>, so the value
  universe is the one of JSON (null, booleans, numbers, strings, arrays, objects)
  together with \<^verbatim>\<open>undefined\<close>, which is what reading an absent property yields.

  A Number is a binary64 value: a finite one carries the real number it denotes, and
  the three special values are constructors of their own. Comparison with a numeric
  literal is exact on such values, and that is all the script does with numbers besides
  printing them. Strings are kept in their UTF-8 encoding; the script only concatenates
  strings and tests them for emptiness, which the encoding preserves.
\<close>

datatype jsnum = Fin real | PInf | NInf | NaN

datatype jsval =
    Undefined
  | Null
  | Bool bool
  | Number jsnum
  | String string
  | Array "jsval list"
  | Object "(string \<times> jsval) list"

text \<open>
  What the engine or the script raises. \<open>Error msg\<close> is \<^verbatim>\<open>new Error(msg)\<close>;
  a TypeError is raised by the engine on a property read from \<^verbatim>\<open>undefined\<close> or
  \<^verbatim>\<open>null\<close> (its message depends on the engine and is left out); a ReferenceError
  on the use of an undeclared identifier; \<open>HostError\<close> is any rejection reason that the
  browser or the mapping library supplies (network failure, malformed JSON body, ...).
\<close>

datatype exn = Error string | TypeError | ReferenceError | HostError string

subsection \<open>Render attributes, layers, promises\<close>

text \<open>The options object that \<^verbatim>\<open>stylePoints\<close> builds.\<close>

record style =
  radius :: real
  fillColor :: string
  color :: string
  weight :: real
  opacity :: real
  fillOpacity :: real

text \<open>
  A layer that the mapping library builds for one feature: a circle marker made by
  \<^verbatim>\<open>L.circleMarker(latlng, options)\<close>, or a path that the library makes by itself for
  a geometry that is not a point. \<^verbatim>\<open>bindPopup\<close> stores the popup content in it.
\<close>

type_synonym latlng = "real \<times> real"

datatype shape = CircleMarker latlng style | Path jsval

record layer =
  shape :: shape
  popup :: "string option"

text \<open>The state of a promise once the event loop has run as far as it gets.\<close>

datatype 'a promise = Pending | Rejected exn | Fulfilled 'a

record response =
  ok :: bool
  status :: nat
  json :: "jsval promise"  \<comment> \<open>what \<^verbatim>\<open>response.json()\<close> returns\<close>

text \<open>
  The parts of the host environment whose results the script uses but which are not the
  script's own code: conversions of the language that depend on binary64 digits, the
  Date library, the browser's \<^verbatim>\<open>fetch\<close> and the mapping library's
  \<^verbatim>\<open>L.geoJSON\<close>. They are parameters of the model; no property below depends on
  what they return unless it says so. \<open>geoJSON\<close> receives the parsed data and the two
  callbacks of the options object, and returns the feature layers it built or raises.
\<close>

record host =
  stringToNumber :: "string \<Rightarrow> jsnum"
    \<comment> \<open>StringToNumber of the language: the Number a string converts to\<close>
  numberToString :: "real \<Rightarrow> string"
    \<comment> \<open>Number::toString on finite values that are not safe integers (shortest
        round-trip digits)\<close>
  dateParse :: "string \<Rightarrow> real option"
    \<comment> \<open>\<^verbatim>\<open>Date.parse\<close>: the time value of a date string, \<open>None\<close> for NaN\<close>
  dateToLocaleString :: "real \<Rightarrow> string"
    \<comment> \<open>\<^verbatim>\<open>toLocaleString\<close> of a valid Date in the browser's locale and time zone\<close>
  fetch :: "string \<Rightarrow> response promise"
  geoJSON :: "jsval \<Rightarrow> (jsval \<Rightarrow> latlng \<Rightarrow> exn + layer) \<Rightarrow> (jsval \<Rightarrow> layer \<Rightarrow> exn + layer)
                \<Rightarrow> exn + layer list"

subsection \<open>Conversions\<close>

text \<open>Sequencing of steps that may raise: the first exception ends the sequence.\<close>

definition bind_exn :: "exn + 'a \<Rightarrow> ('a \<Rightarrow> exn + 'b) \<Rightarrow> exn + 'b" where
  "bind_exn m f = (case m of Inl e \<Rightarrow> Inl e | Inr a \<Rightarrow> f a)"

fun sequence_exn :: "(exn + 'a) list \<Rightarrow> exn + 'a list" where
  "sequence_exn [] = Inr []"
| "sequence_exn (m # ms) =
     bind_exn m (\<lambda>a. bind_exn (sequence_exn ms) (\<lambda>as. Inr (a # as)))"

fun digits10 :: "nat \<Rightarrow> string" where
  "digits10 n =
     (if n < 10 then [''0123456789'' ! n]
      else digits10 (n div 10) @ [''0123456789'' ! (n mod 10)])"

declare digits10.simps [simp del]

text \<open>
  Number::toString. An integer of magnitude at most \<open>2^53\<close> prints as its decimal
  digits; every other finite value prints as its shortest round-trip digits, which is
  the host's \<open>numberToString\<close>.
\<close>

definition Number_toString :: "host \<Rightarrow> jsnum \<Rightarrow> string" where
  "Number_toString h n =
     (case n of
        NaN \<Rightarrow> ''NaN''
      | PInf \<Rightarrow> ''Infinity''
      | NInf \<Rightarrow> ''-Infinity''
      | Fin r \<Rightarrow>
          if r = of_int \<lfloor>r\<rfloor> \<and> \<bar>r\<bar> \<le> 9007199254740992
          then (if r < 0 then ''-'' @ digits10 (nat \<lfloor>- r\<rfloor>) else digits10 (nat \<lfloor>r\<rfloor>))
          else numberToString h r)"

fun join_comma :: "string list \<Rightarrow> string" where
  "join_comma [] = []"
| "join_comma [s] = s"
| "join_comma (s # t # ss) = s @ '','' @ join_comma (t # ss)"

text \<open>
  ToString. A primitive value always has a string. An object or array is converted
  through its \<^verbatim>\<open>toString\<close> property, and the conversion raises a TypeError when that
  yields no primitive:
  \<^item> a parsed object inherits \<^verbatim>\<open>Object.prototype.toString\<close>, which gives
    \<^verbatim>\<open>[object Object]\<close>, unless it has a key \<^verbatim>\<open>toString\<close> of its own. The value
    under such a key is JSON data and so not callable; the inherited \<^verbatim>\<open>valueOf\<close>
    returns the object itself, and a \<^verbatim>\<open>valueOf\<close> key of its own is not callable
    either, so no primitive is found and the engine raises;
  \<^item> an array prints as \<^verbatim>\<open>join(",")\<close> of its elements, where \<^verbatim>\<open>undefined\<close>
    and \<^verbatim>\<open>null\<close> elements print as the empty string and every other element is
    converted by ToString, in order, so that an element that raises makes the array raise.
\<close>

fun ToString :: "host \<Rightarrow> jsval \<Rightarrow> exn + string" where
  "ToString h Undefined = Inr ''undefined''"
| "ToString h Null = Inr ''null''"
| "ToString h (Bool b) = Inr (if b then ''true'' else ''false'')"
| "ToString h (Number n) = Inr (Number_toString h n)"
| "ToString h (String s) = Inr s"
| "ToString h (Array xs) =
     bind_exn
       (sequence_exn
          (map (\<lambda>x. case x of Undefined \<Rightarrow> Inr [] | Null \<Rightarrow> Inr [] | _ \<Rightarrow> ToString h x) xs))
       (\<lambda>ss. Inr (join_comma ss))"
| "ToString h (Object kvs) =
     (case map_of kvs ''toString'' of
        None \<Rightarrow> Inr ''[object Object]''
      | Some v \<Rightarrow> Inl TypeError)"

text \<open>The primitive values: everything but arrays and objects.\<close>

fun is_primitive :: "jsval \<Rightarrow> bool" where
  "is_primitive (Array xs) = False"
| "is_primitive (Object kvs) = False"
| "is_primitive v = True"

text \<open>
  ToPrimitive: a primitive is returned as it is; an array or object converts through its
  \<^verbatim>\<open>toString\<close>, with either hint (the inherited \<^verbatim>\<open>valueOf\<close> returns the object
  itself and is passed over), and raises where ToString raises.
\<close>

definition ToPrimitive :: "host \<Rightarrow> jsval \<Rightarrow> exn + jsval" where
  "ToPrimitive h v =
     (if is_primitive v then Inr v
      else bind_exn (ToString h v) (\<lambda>s. Inr (String s)))"

text \<open>
  ToNumber. \<^verbatim>\<open>undefined\<close> converts to NaN, \<^verbatim>\<open>null\<close> to 0, a boolean to 0 or 1;
  a string, and an array or object through its primitive, by StringToNumber.
\<close>

definition ToNumber :: "host \<Rightarrow> jsval \<Rightarrow> exn + jsnum" where
  "ToNumber h v =
     bind_exn (ToPrimitive h v) (\<lambda>p.
       Inr (case p of
              Undefined \<Rightarrow> NaN
            | Null \<Rightarrow> Fin 0
            | Bool b \<Rightarrow> Fin (if b then 1 else 0)
            | Number n \<Rightarrow> n
            | String s \<Rightarrow> stringToNumber h s
            | _ \<Rightarrow> NaN))"

text \<open>ToBoolean: the falsy values are undefined, null, false, 0, NaN and the empty string.\<close>

fun ToBoolean :: "jsval \<Rightarrow> bool" where
  "ToBoolean Undefined = False"
| "ToBoolean Null = False"
| "ToBoolean (Bool b) = b"
| "ToBoolean (Number n) = (case n of Fin r \<Rightarrow> r \<noteq> 0 | NaN \<Rightarrow> False | _ \<Rightarrow> True)"
| "ToBoolean (String s) = (s \<noteq> [])"
| "ToBoolean (Array xs) = True"
| "ToBoolean (Object kvs) = True"

text \<open>\<^verbatim>\<open>a || b\<close>: the left operand when it is truthy, the right one otherwise.\<close>

definition js_or :: "jsval \<Rightarrow> jsval \<Rightarrow> jsval" where
  "js_or a b = (if ToBoolean a then a else b)"

text \<open>
  \<^verbatim>\<open>v >= c\<close> for a numeric literal \<open>c\<close>: the left operand is converted to a Number,
  which may raise, and the comparison is false when that Number is NaN.
\<close>

definition js_ge :: "host \<Rightarrow> jsval \<Rightarrow> real \<Rightarrow> exn + bool" where
  "js_ge h v c =
     bind_exn (ToNumber h v) (\<lambda>n.
       Inr (case n of
              Fin x \<Rightarrow> c \<le> x
            | PInf \<Rightarrow> True
            | NInf \<Rightarrow> False
            | NaN \<Rightarrow> False))"

text \<open>
  The property read \<^verbatim>\<open>v.k\<close>. It raises a TypeError on \<^verbatim>\<open>undefined\<close> and
  \<^verbatim>\<open>null\<close>; on an object it yields the value stored under \<open>k\<close>, and
  \<^verbatim>\<open>undefined\<close> when there is none (the keys of an object are distinct). The names
  the script reads are \<^verbatim>\<open>properties\<close> and eight attribute names, none of which is a
  built-in property of a boolean, number, string or array, so the read yields
  \<^verbatim>\<open>undefined\<close> on those.
\<close>

fun member :: "jsval \<Rightarrow> string \<Rightarrow> exn + jsval" where
  "member Undefined k = Inl TypeError"
| "member Null k = Inl TypeError"
| "member (Object kvs) k = Inr (case map_of kvs k of None \<Rightarrow> Undefined | Some v \<Rightarrow> v)"
| "member v k = Inr Undefined"

section \<open>The priority classifier\<close>

text \<open>
  \<^verbatim>\<open>function getPriorityColor(score)\<close> of \<^verbatim>\<open>js/main.js\<close>. The second comparison
  is evaluated only when the first is false; either may raise.
\<close>

definition getPriorityColor :: "host \<Rightarrow> jsval \<Rightarrow> exn + string" where
  "getPriorityColor h score =
     bind_exn (js_ge h score 5) (\<lambda>high.
       if high then Inr ''red''
       else bind_exn (js_ge h score 2) (\<lambda>medium.
         if medium then Inr ''orange''
         else Inr ''green''))"

section \<open>The style mapper\<close>

text \<open>
  \<^verbatim>\<open>function stylePoints(feature)\<close>: both property reads are unguarded, so each may
  raise, and so may the classifier.
\<close>

definition stylePoints :: "host \<Rightarrow> jsval \<Rightarrow> exn + style" where
  "stylePoints h feature =
     bind_exn (member feature ''properties'') (\<lambda>props.
     bind_exn (member props ''prioridade_score'') (\<lambda>p.
       (let score = js_or p (Number (Fin 0)) in
        bind_exn (getPriorityColor h score) (\<lambda>fill.
          Inr \<lparr>radius = 8,
               fillColor = fill,
               color = ''#000'',
               weight = 1,
               opacity = 1,
               fillOpacity = 0.8\<rparr>))))"

section \<open>The popup builder\<close>

text \<open>
  \<^verbatim>\<open>new Date(value)\<close> with one argument: the value is converted to a primitive, which
  may raise; a string is parsed by \<^verbatim>\<open>Date.parse\<close>, anything else is converted to a
  Number and clipped to the range of time values. \<open>None\<close> is the time value NaN of an
  invalid Date.
\<close>

definition TimeClip :: "jsnum \<Rightarrow> real option" where
  "TimeClip n =
     (case n of
        Fin t \<Rightarrow>
          if \<bar>t\<bar> > 8640000000000000 then None
          else Some (of_int (if 0 \<le> t then \<lfloor>t\<rfloor> else \<lceil>t\<rceil>))
      | _ \<Rightarrow> None)"

definition newDate :: "host \<Rightarrow> jsval \<Rightarrow> exn + real option" where
  "newDate h v =
     bind_exn (ToPrimitive h v) (\<lambda>p.
       case p of
         String s \<Rightarrow> Inr (dateParse h s)
       | _ \<Rightarrow> bind_exn (ToNumber h p) (\<lambda>n. Inr (TimeClip n)))"

definition toLocaleString :: "host \<Rightarrow> real option \<Rightarrow> string" where
  "toLocaleString h d =
     (case d of None \<Rightarrow> ''Invalid Date'' | Some t \<Rightarrow> dateToLocaleString h t)"

text \<open>
  The text of the template literal between two substitutions: a line break and the
  indentation of the source line. The letters outside ASCII are in UTF-8.
\<close>

definition nl :: "nat \<Rightarrow> string" where
  "nl k = CHR 0x0A # replicate k CHR '' ''"

definition c_cedilla :: string where "c_cedilla = [CHR 0xC3, CHR 0xA7]"
definition a_tilde :: string where "a_tilde = [CHR 0xC3, CHR 0xA3]"
definition i_acute :: string where "i_acute = [CHR 0xC3, CHR 0xAD]"

text \<open>One line of the popup: \<^verbatim>\<open><b>label:</b> value<br>\<close> after its indentation.\<close>

definition popupLine :: "string \<Rightarrow> string \<Rightarrow> string" where
  \<open>popupLine label v = nl 12 @ ''<b>'' @ label @ '':</b> '' @ v @ ''<br>''\<close>

text \<open>
  The seven substitutions of the template literal that initialises
  \<^verbatim>\<open>popupContent\<close>, in the order of the source: each expression is evaluated and its
  value converted by ToString before the next one is evaluated, and the first exception
  ends the evaluation.
\<close>

definition popupValues :: "host \<Rightarrow> jsval \<Rightarrow> exn + string list" where
  \<open>popupValues h props =
     bind_exn (member props ''tipo_vazamento'') (\<lambda>tipo.
     bind_exn (ToString h (js_or tipo (String ''N/A''))) (\<lambda>v1.
     bind_exn (member props ''descricao_detalhes'') (\<lambda>descricao.
     bind_exn (ToString h (js_or descricao (String ''N/A''))) (\<lambda>v2.
     bind_exn (member props ''intensidade_vazamento'') (\<lambda>intensidade.
     bind_exn (ToString h (js_or intensidade (String ''N/A''))) (\<lambda>v3.
     bind_exn (member props ''origem_vazamento'') (\<lambda>origem.
     bind_exn (ToString h (js_or origem (String ''N/A''))) (\<lambda>v4.
     bind_exn (member props ''prioridade_score'') (\<lambda>prioridade.
     bind_exn (ToString h (js_or prioridade (Number (Fin 0)))) (\<lambda>v5.
     bind_exn (member props ''status'') (\<lambda>status.
     bind_exn (ToString h (js_or status (String ''N/A''))) (\<lambda>v6.
     bind_exn (member props ''data_submissao'') (\<lambda>data.
     bind_exn (newDate h data) (\<lambda>date.
       Inr [v1, v2, v3, v4, v5, v6, toLocaleString h date]))))))))))))))\<close>

text \<open>
  The text of the template literal around seven substituted values: seven lines, and the
  closing line break with its indentation.
\<close>

definition popupTemplate :: "string list \<Rightarrow> string" where
  \<open>popupTemplate vs =
     concat (map2 popupLine
       [''Tipo'', ''Descri'' @ c_cedilla @ a_tilde @ ''o'', ''Intensidade'', ''Origem'',
        ''Prioridade'', ''Status'', ''Reportado em''] vs)
     @ nl 8\<close>

definition popupLines :: "host \<Rightarrow> jsval \<Rightarrow> exn + string" where
  "popupLines h props = bind_exn (popupValues h props) (\<lambda>vs. Inr (popupTemplate vs))"

text \<open>The image element that is appended for a truthy \<^verbatim>\<open>foto_url\<close>.\<close>

definition popupImg :: "string \<Rightarrow> string" where
  \<open>popupImg url =
     ''<img src="'' @ url
       @ ''" alt="Foto do Vazamento" style="max-width:200px; height:auto; margin-top: 10px;">''\<close>

definition bindPopup :: "string \<Rightarrow> layer \<Rightarrow> layer" where
  "bindPopup content l = l\<lparr>popup := Some content\<rparr>"

text \<open>
  \<^verbatim>\<open>function onEachFeature(feature, layer)\<close>. The layer is returned as the call leaves
  it; when the call raises, no popup has been bound. A property that is read twice is
  read once here: reads have no effect and yield the same value.
\<close>

definition onEachFeature :: "host \<Rightarrow> jsval \<Rightarrow> layer \<Rightarrow> exn + layer" where
  "onEachFeature h feature l =
     bind_exn (member feature ''properties'') (\<lambda>props.
       if ToBoolean props then
         bind_exn (popupLines h props) (\<lambda>popupContent.
         bind_exn (member props ''foto_url'') (\<lambda>foto.
           if ToBoolean foto
           then bind_exn (ToString h foto) (\<lambda>url.
                  Inr (bindPopup (popupContent @ popupImg url) l))
           else Inr (bindPopup popupContent l)))
       else Inr l)"

section \<open>Configuration and the state of the page\<close>

text \<open>The object literal of \<^verbatim>\<open>config.js\<close>: six fields.\<close>

record config =
  osmTileUrl :: string
  osmAttribution :: string
  wfsServiceUrl :: string
  centerLat :: real
  centerLon :: real
  defaultZoom :: real

definition config_js :: config where
  \<open>config_js =
     \<lparr>osmTileUrl = ''https://{s}.tile.openstreetmap.org/{z}/{x}/{y}.png'',
      osmAttribution =
        ''&copy; <a href="https://www.openstreetmap.org/copyright">OpenStreetMap</a> contributors'',
      wfsServiceUrl =
        ''http://localhost:8080/qgis/qgis_server.fcgi?MAP=/path/to/your/qgis_project.qgz''
        @ ''&SERVICE=WFS&VERSION=1.0.0&REQUEST=GetFeature&TYPENAME=vazamentos_denuncias''
        @ ''&OUTPUTFORMAT=application/json'',
      centerLat = - 23.5505,
      centerLon = - 46.6333,
      defaultZoom = 12\<rparr>\<close>

text \<open>
  The map object of the mapping library, as far as the script drives it: the container
  it was made for, the view set by \<^verbatim>\<open>setView\<close>, and the layers added to it, in the
  order of the \<^verbatim>\<open>addTo\<close> calls. The layer that \<^verbatim>\<open>L.geoJSON\<close> returns is one
  layer holding all the feature layers.
\<close>

datatype map_layer =
    TileLayer string string real  \<comment> \<open>URL template, attribution, maxZoom\<close>
  | GeoJSON "layer list"

record leaflet_map =
  container :: string
  view :: "(latlng \<times> real) option"
  layers :: "map_layer list"

datatype console_entry = ConsoleError string "exn option" | ConsoleLog string

text \<open>
  Everything the script can read or change: the two globals \<^verbatim>\<open>config\<close> (absent
  when \<^verbatim>\<open>config.js\<close> was not loaded) and \<^verbatim>\<open>map\<close> (absent until line 9 has
  run), the console, the alerts shown, and the exception that ended the script, if any.
\<close>

record world =
  config_global :: "config option"
  map_global :: "leaflet_map option"
  console :: "console_entry list"
  alerts :: "string list"
  uncaught :: "exn option"

definition console_error :: "string \<Rightarrow> exn option \<Rightarrow> world \<Rightarrow> world" where
  "console_error msg e w = w\<lparr>console := console w @ [ConsoleError msg e]\<rparr>"

definition console_log :: "string \<Rightarrow> world \<Rightarrow> world" where
  "console_log msg w = w\<lparr>console := console w @ [ConsoleLog msg]\<rparr>"

definition alert :: "string \<Rightarrow> world \<Rightarrow> world" where
  "alert msg w = w\<lparr>alerts := alerts w @ [msg]\<rparr>"

definition L_map :: "string \<Rightarrow> leaflet_map" where
  "L_map c = \<lparr>container = c, view = None, layers = []\<rparr>"

definition setView :: "latlng \<Rightarrow> real \<Rightarrow> leaflet_map \<Rightarrow> leaflet_map" where
  "setView c z m = m\<lparr>view := Some (c, z)\<rparr>"

definition addTo :: "map_layer \<Rightarrow> leaflet_map \<Rightarrow> leaflet_map" where
  "addTo l m = m\<lparr>layers := layers m @ [l]\<rparr>"

section \<open>The script\<close>

text \<open>Lines 9 to 15: the map, its view, and the base tile layer.\<close>

definition bootstrap :: "config \<Rightarrow> leaflet_map" where
  "bootstrap c =
     addTo (TileLayer (osmTileUrl c) (osmAttribution c) 19)
       (setView (centerLat c, centerLon c) (defaultZoom c) (L_map ''map''))"

text \<open>The \<^verbatim>\<open>pointToLayer\<close> option: a circle marker with the style of the feature.\<close>

definition pointToLayer :: "host \<Rightarrow> jsval \<Rightarrow> latlng \<Rightarrow> exn + layer" where
  "pointToLayer h feature ll =
     bind_exn (stylePoints h feature) (\<lambda>s. Inr \<lparr>shape = CircleMarker ll s, popup = None\<rparr>)"

text \<open>
  The first \<^verbatim>\<open>then\<close> callback: it throws on a response that is not ok, and returns
  the promise of \<^verbatim>\<open>response.json()\<close> otherwise.
\<close>

definition on_response :: "response \<Rightarrow> exn + jsval promise" where
  "on_response r =
     (if \<not> ok r then Inl (Error (''Erro HTTP! Status: '' @ digits10 (status r)))
      else Inr (json r))"

text \<open>
  The second \<^verbatim>\<open>then\<close> callback: the exception it ends with, if any, and the state it
  leaves. \<^verbatim>\<open>L.geoJSON\<close> runs to its end, or raises, before \<^verbatim>\<open>addTo\<close> is called.
\<close>

definition on_data :: "host \<Rightarrow> jsval \<Rightarrow> world \<Rightarrow> exn option \<times> world" where
  "on_data h d w =
     (case geoJSON h d (pointToLayer h) (onEachFeature h) of
        Inl e \<Rightarrow> (Some e, w)
      | Inr ls \<Rightarrow>
          (None,
           console_log ''Dados de vazamentos carregados com sucesso.''
             (w\<lparr>map_global := map_option (addTo (GeoJSON ls)) (map_global w)\<rparr>)))"

text \<open>The \<^verbatim>\<open>catch\<close> callback.\<close>

definition on_error :: "exn \<Rightarrow> world \<Rightarrow> world" where
  "on_error e w =
     alert (''N'' @ a_tilde @ ''o foi poss'' @ i_acute
              @ ''vel carregar os dados de vazamentos. Verifique a URL do WFS e o servidor.'')
       (console_error ''Erro ao carregar dados WFS:'' (Some e) w)"

text \<open>
  The promise that the first \<^verbatim>\<open>then\<close> returns: it stays pending or rejects with the
  fetch, rejects with what the callback throws, and otherwise follows the promise the
  callback returns.
\<close>

definition parsed :: "host \<Rightarrow> config \<Rightarrow> jsval promise" where
  "parsed h c =
     (case fetch h (wfsServiceUrl c) of
        Pending \<Rightarrow> Pending
      | Rejected e \<Rightarrow> Rejected e
      | Fulfilled r \<Rightarrow> (case on_response r of Inl e \<Rightarrow> Rejected e | Inr p \<Rightarrow> p))"

text \<open>Lines 62 to 82: the state once the chain has run as far as it gets.\<close>

definition fetch_chain :: "host \<Rightarrow> config \<Rightarrow> world \<Rightarrow> world" where
  "fetch_chain h c w =
     (case parsed h c of
        Pending \<Rightarrow> w
      | Rejected e \<Rightarrow> on_error e w
      | Fulfilled d \<Rightarrow>
          (case on_data h d w of
             (Some e, w') \<Rightarrow> on_error e w'
           | (None, w') \<Rightarrow> w'))"

text \<open>
  The whole script. Without \<^verbatim>\<open>config.js\<close> the check of lines 4 to 6 logs an error
  and the read of \<^verbatim>\<open>config\<close> on line 9 ends the script with a ReferenceError.
\<close>

definition main :: "host \<Rightarrow> world \<Rightarrow> world" where
  "main h w =
     (case config_global w of
        None \<Rightarrow>
          (console_error
             (''Erro: config.js n'' @ a_tilde
                @ ''o foi carregado. Verifique o caminho no index.html.'') None w)
            \<lparr>uncaught := Some ReferenceError\<rparr>
      | Some c \<Rightarrow> fetch_chain h c (w\<lparr>map_global := Some (bootstrap c)\<rparr>))"

text \<open>The page before the script runs, with \<^verbatim>\<open>config.js\<close> loaded.\<close>

definition page :: world where
  "page = \<lparr>config_global = Some config_js, map_global = None, console = [], alerts = [],
            uncaught = None\<rparr>"

section \<open>The wording of the specification\<close>

text \<open>
  The specification states the fill color through \<^verbatim>\<open>priorityScore ?? 0\<close>: the right
  operand when the left one is \<^verbatim>\<open>undefined\<close> or \<^verbatim>\<open>null\<close>, the left one otherwise.
\<close>

definition nullish_or :: "jsval \<Rightarrow> jsval \<Rightarrow> jsval" where
  "nullish_or a b = (case a of Undefined \<Rightarrow> b | Null \<Rightarrow> b | _ \<Rightarrow> a)"

text \<open>An attribute is present in an object when reading it does not yield \<^verbatim>\<open>undefined\<close>.\<close>

definition present :: "jsval \<Rightarrow> string \<Rightarrow> bool" where
  "present props k = (case member props k of Inl e \<Rightarrow> False | Inr v \<Rightarrow> v \<noteq> Undefined)"

text \<open>
  The result of the popup builder contains an image reference when the call returned a
  layer whose popup content has an \<^verbatim>\<open>img\<close> element in it.
\<close>

definition has_image :: "exn + layer \<Rightarrow> bool" where
  "has_image r =
     (case r of
        Inl e \<Rightarrow> False
      | Inr l \<Rightarrow> (case popup l of None \<Rightarrow> False | Some content \<Rightarrow> sublist ''<img'' content))"

section \<open>A sample host\<close>

text \<open>
  A host for running the script on concrete inputs. Its \<open>geoJSON\<close> walks the
  \<^verbatim>\<open>features\<close> array of the data, builds the layer of each feature with the
  \<^verbatim>\<open>pointToLayer\<close> callback at the feature's coordinates, passes it to the
  \<^verbatim>\<open>onEachFeature\<close> callback, and stops at the first exception. Its
  \<^verbatim>\<open>fetch\<close> settles as given. It converts no string to a Number and parses no string
  as a date, and the two printing functions are fixed texts; the sample runs below reach
  neither of the two.
\<close>

definition sample_latlng :: "jsval \<Rightarrow> exn + latlng" where
  "sample_latlng feature =
     bind_exn (member feature ''geometry'') (\<lambda>g.
     bind_exn (member g ''coordinates'') (\<lambda>cs.
       case cs of
         Array [Number (Fin lon), Number (Fin lat)] \<Rightarrow> Inr (lat, lon)
       | _ \<Rightarrow> Inl (HostError ''Invalid GeoJSON object.'')))"

fun sample_layers ::
  "(jsval \<Rightarrow> latlng \<Rightarrow> exn + layer) \<Rightarrow> (jsval \<Rightarrow> layer \<Rightarrow> exn + layer) \<Rightarrow> jsval list
     \<Rightarrow> exn + layer list" where
  "sample_layers p e [] = Inr []"
| "sample_layers p e (f # fs) =
     bind_exn (sample_latlng f) (\<lambda>ll.
     bind_exn (p f ll) (\<lambda>l.
     bind_exn (e f l) (\<lambda>l'.
     bind_exn (sample_layers p e fs) (\<lambda>ls. Inr (l' # ls)))))"

definition sample_geoJSON ::
  "jsval \<Rightarrow> (jsval \<Rightarrow> latlng \<Rightarrow> exn + layer) \<Rightarrow> (jsval \<Rightarrow> layer \<Rightarrow> exn + layer)
     \<Rightarrow> exn + layer list" where
  "sample_geoJSON d p e =
     (case member d ''features'' of
        Inr (Array fs) \<Rightarrow> sample_layers p e fs
      | _ \<Rightarrow> Inl (HostError ''Invalid GeoJSON object.''))"

definition sample_host :: "response promise \<Rightarrow> host" where
  "sample_host r =
     \<lparr>stringToNumber = (\<lambda>s. NaN),
      numberToString = (\<lambda>x. ''1.5''),
      dateParse = (\<lambda>s. None),
      dateToLocaleString = (\<lambda>t. ''1/1/1970, 12:00:00 AM''),
      fetch = (\<lambda>url. r),
      geoJSON = sample_geoJSON\<rparr>"

text \<open>A feature at the configured center with the given properties.\<close>

definition sample_feature :: "jsval \<Rightarrow> jsval" where
  "sample_feature props =
     Object [(''type'', String ''Feature''),
             (''geometry'', Object [(''type'', String ''Point''),
                (''coordinates'', Array [Number (Fin (- 46.6333)), Number (Fin (- 23.5505))])]),
             (''properties'', props)]"

text \<open>A layer as the library passes it to \<^verbatim>\<open>onEachFeature\<close>: no popup bound yet.\<close>

definition sample_layer :: layer where
  "sample_layer = \<lparr>shape = Path Null, popup = None\<rparr>"

definition sample_collection :: "jsval list \<Rightarrow> jsval" where
  "sample_collection fs =
     Object [(''type'', String ''FeatureCollection''), (''features'', Array fs)]"

section \<open>Basic facts\<close>

lemma bind_exn_Inr [simp]: "bind_exn (Inr a) f = f a"
  by (simp add: bind_exn_def)

lemma bind_exn_Inl [simp]: "bind_exn (Inl e) f = Inl e"
  by (simp add: bind_exn_def)

lemma bind_exn_eq_Inr:
  "bind_exn m f = Inr b \<longleftrightarrow> (\<exists>a. m = Inr a \<and> f a = Inr b)"
  by (cases m) simp_all

lemma digits10_0: "digits10 0 = ''0''"
  by (simp add: digits10.simps)

lemma Number_toString_0: "Number_toString h (Fin 0) = ''0''"
  by (simp add: Number_toString_def digits10_0)

lemma member_sample_feature [simp]:
  "member (sample_feature props) ''properties'' = Inr props"
  by (simp add: sample_feature_def)

lemma ToPrimitive_primitive: "is_primitive v \<Longrightarrow> ToPrimitive h v = Inr v"
  by (simp add: ToPrimitive_def)

text \<open>The only exception a conversion raises is the TypeError of ToString on an object.\<close>

lemma sequence_exn_TypeError:
  assumes "\<And>m e. m \<in> set ms \<Longrightarrow> m = Inl e \<Longrightarrow> e = TypeError"
    and "sequence_exn ms = Inl e"
  shows "e = TypeError"
  using assms
proof (induction ms)
  case Nil
  then show ?case by simp
next
  case (Cons m ms)
  show ?case
  proof (cases m)
    case (Inl e')
    with Cons.prems show ?thesis by auto
  next
    case (Inr a)
    with Cons.prems(2) have "sequence_exn ms = Inl e"
      by (cases "sequence_exn ms") simp_all
    with Cons.IH Cons.prems(1) show ?thesis by auto
  qed
qed

lemma ToString_TypeError: "ToString h v = Inl e \<Longrightarrow> e = TypeError"
proof (induction v arbitrary: e)
  case (Array xs)
  let ?ms = "map (\<lambda>x. case x of Undefined \<Rightarrow> Inr [] | Null \<Rightarrow> Inr [] | _ \<Rightarrow> ToString h x) xs"
  from Array.prems have s: "sequence_exn ?ms = Inl e"
    by (cases "sequence_exn ?ms") simp_all
  have "e' = TypeError" if "m \<in> set ?ms" "m = Inl e'" for m e'
  proof -
    from that obtain x where x: "x \<in> set xs"
      and m: "(case x of Undefined \<Rightarrow> Inr [] | Null \<Rightarrow> Inr [] | _ \<Rightarrow> ToString h x) = Inl e'"
      by auto
    from m have "ToString h x = Inl e'"
      by (cases x) simp_all
    with x show ?thesis
      using Array.IH by blast
  qed
  then show ?case
    using sequence_exn_TypeError [OF _ s] by blast
next
  case (Object kvs)
  then show ?case
    by (simp split: option.splits)
qed simp_all

lemma ToPrimitive_TypeError: "ToPrimitive h v = Inl e \<Longrightarrow> e = TypeError"
  by (cases "ToString h v")
    (auto simp: ToPrimitive_def dest: ToString_TypeError split: if_splits)

lemma ToPrimitive_is_primitive: "ToPrimitive h v = Inr p \<Longrightarrow> is_primitive p"
  by (cases "ToString h v") (auto simp: ToPrimitive_def split: if_splits)

lemma js_ge_Number:
  "js_ge h (Number n) c = Inr (case n of Fin x \<Rightarrow> c \<le> x | PInf \<Rightarrow> True | _ \<Rightarrow> False)"
  by (cases n) (simp_all add: js_ge_def ToNumber_def ToPrimitive_def)

lemma js_ge_Undefined: "js_ge h Undefined c = Inr False"
  by (simp add: js_ge_def ToNumber_def ToPrimitive_def)

text \<open>The classifier raises exactly when the conversion of the score to a primitive does.\<close>

lemma getPriorityColor_cases:
  "getPriorityColor h v =
     (case ToPrimitive h v of
        Inl e \<Rightarrow> Inl e
      | Inr p \<Rightarrow>
          (case js_ge h p 5 of
             Inr True \<Rightarrow> Inr ''red''
           | _ \<Rightarrow> (case js_ge h p 2 of Inr True \<Rightarrow> Inr ''orange'' | _ \<Rightarrow> Inr ''green'')))"
proof (cases "ToPrimitive h v")
  case (Inl e)
  then show ?thesis
    by (simp add: getPriorityColor_def js_ge_def ToNumber_def)
next
  case (Inr p)
  then have "ToPrimitive h p = Inr p"
    using ToPrimitive_is_primitive ToPrimitive_primitive by blast
  with Inr show ?thesis
    by (simp add: getPriorityColor_def js_ge_def ToNumber_def)
qed

lemma newDate_Undefined: "newDate h Undefined = Inr None"
  by (simp add: newDate_def ToPrimitive_def ToNumber_def TimeClip_def)

lemma popupTemplate_7:
  "popupTemplate [v1, v2, v3, v4, v5, v6, v7] =
     popupLine ''Tipo'' v1
     @ popupLine (''Descri'' @ c_cedilla @ a_tilde @ ''o'') v2
     @ popupLine ''Intensidade'' v3
     @ popupLine ''Origem'' v4
     @ popupLine ''Prioridade'' v5
     @ popupLine ''Status'' v6
     @ popupLine ''Reportado em'' v7
     @ nl 8"
  by (simp add: popupTemplate_def)

lemma popupValues_length:
  assumes "popupValues h props = Inr vs"
  shows "\<exists>v1 v2 v3 v4 v5 v6 v7. vs = [v1, v2, v3, v4, v5, v6, v7]"
  using assms unfolding popupValues_def bind_exn_eq_Inr by blast

section \<open>The classifier\<close>

text \<open>
  C1. For every real score \<open>s\<close> the classifier returns red exactly when \<open>s \<ge> 5\<close>,
  orange exactly when \<open>2 \<le> s < 5\<close>, and green exactly when \<open>s < 2\<close>; a missing score
  (\<^verbatim>\<open>undefined\<close>) is classified as 0 is, namely green.
\<close>

theorem getPriorityColor_thresholds:
  "(getPriorityColor h (Number (Fin s)) = Inr ''red'' \<longleftrightarrow> 5 \<le> s)
   \<and> (getPriorityColor h (Number (Fin s)) = Inr ''orange'' \<longleftrightarrow> 2 \<le> s \<and> s < 5)
   \<and> (getPriorityColor h (Number (Fin s)) = Inr ''green'' \<longleftrightarrow> s < 2)
   \<and> getPriorityColor h Undefined = getPriorityColor h (Number (Fin 0))
   \<and> getPriorityColor h Undefined = Inr ''green''"
  by (auto simp: getPriorityColor_def js_ge_Number js_ge_Undefined)

theorem getPriorityColor_thresholds_witness:
  "getPriorityColor (sample_host Pending) (Number (Fin 7)) = Inr ''red''
   \<and> getPriorityColor (sample_host Pending) (Number (Fin 3)) = Inr ''orange''
   \<and> getPriorityColor (sample_host Pending) (Number (Fin 1)) = Inr ''green''
   \<and> getPriorityColor (sample_host Pending) Undefined = Inr ''green''"
  using getPriorityColor_thresholds [of "sample_host Pending" 7]
    getPriorityColor_thresholds [of "sample_host Pending" 3]
    getPriorityColor_thresholds [of "sample_host Pending" 1]
  by simp

text \<open>
  The Number values that are not real numbers: both comparisons are false on NaN, so it
  falls into the last branch; the infinities fall where their sign puts them.
\<close>

lemma getPriorityColor_special:
  "getPriorityColor h (Number NaN) = Inr ''green''"
  "getPriorityColor h (Number PInf) = Inr ''red''"
  "getPriorityColor h (Number NInf) = Inr ''green''"
  by (simp_all add: getPriorityColor_def js_ge_Number)

text \<open>
  C7. The classifier is total on the real numbers: on every real score it returns one of
  the three tags, and each of the three is returned for some score. It is deterministic:
  on a Number its result is a function of that Number alone, whatever the host
  environment is. On a value that is not a Number it returns one of the three tags too,
  unless the conversion of the value to a primitive raises a TypeError.
\<close>

theorem getPriorityColor_total_deterministic:
  "getPriorityColor h v \<in> {Inr ''red'', Inr ''orange'', Inr ''green'', Inl TypeError}
   \<and> getPriorityColor h (Number (Fin r)) \<in> {Inr ''red'', Inr ''orange'', Inr ''green''}
   \<and> getPriorityColor h (Number n) = getPriorityColor h' (Number n)
   \<and> getPriorityColor h (Number (Fin 5)) = Inr ''red''
   \<and> getPriorityColor h (Number (Fin 2)) = Inr ''orange''
   \<and> getPriorityColor h (Number (Fin 0)) = Inr ''green''"
proof -
  have "getPriorityColor h v \<in> {Inr ''red'', Inr ''orange'', Inr ''green'', Inl TypeError}"
    using ToPrimitive_TypeError [of h v]
    by (auto simp: getPriorityColor_cases split: sum.splits bool.splits)
  then show ?thesis
    by (simp add: getPriorityColor_def js_ge_Number)
qed

theorem getPriorityColor_total_deterministic_witness:
  "getPriorityColor (sample_host Pending) (Number (Fin (5 / 2)))
     \<in> {Inr ''red'', Inr ''orange'', Inr ''green''}
   \<and> getPriorityColor (sample_host Pending) (Number (Fin (5 / 2)))
       = getPriorityColor (sample_host (Rejected TypeError)) (Number (Fin (5 / 2)))"
  using getPriorityColor_total_deterministic
    [of "sample_host Pending" "Number (Fin (5 / 2))" "5 / 2" "Fin (5 / 2)"
        "sample_host (Rejected TypeError)"]
  by auto

section \<open>The style mapper\<close>

text \<open>
  On a score that is a Number or absent, classifying \<^verbatim>\<open>score || 0\<close>, as the code
  does, and classifying \<^verbatim>\<open>score ?? 0\<close>, as the specification words it, agree: the two
  operands differ only on 0 and NaN, and 0 and NaN are both classified green.
\<close>

lemma getPriorityColor_or_nullish:
  assumes "p = Undefined \<or> (\<exists>n. p = Number n)"
  shows "getPriorityColor h (js_or p (Number (Fin 0)))
         = getPriorityColor h (nullish_or p (Number (Fin 0)))"
proof -
  from assms consider "p = Undefined" | n where "p = Number n" by blast
  then show ?thesis
  proof cases
    case 1
    then show ?thesis by (simp add: js_or_def nullish_or_def)
  next
    case 2
    then show ?thesis
      by (cases n) (simp_all add: js_or_def nullish_or_def getPriorityColor_def js_ge_Number)
  qed
qed

lemma getPriorityColor_nullish_Inr:
  assumes "p = Undefined \<or> (\<exists>n. p = Number n)"
  shows "\<exists>c. getPriorityColor h (nullish_or p (Number (Fin 0))) = Inr c"
proof -
  from assms consider "p = Undefined" | n where "p = Number n" by blast
  then show ?thesis
  proof cases
    case 1
    then show ?thesis
      by (simp add: nullish_or_def getPriorityColor_def js_ge_Number)
  next
    case 2
    then show ?thesis
      by (cases n) (simp_all add: nullish_or_def getPriorityColor_def js_ge_Number)
  qed
qed

text \<open>
  C2. For every feature with a properties object whose \<^verbatim>\<open>prioridade_score\<close> is a
  Number or absent, the style mapper returns the record with radius 8, color
  \<^verbatim>\<open>#000\<close>, weight 1, opacity 1, fillOpacity 0.8 and the fill color that the
  classifier gives to \<^verbatim>\<open>prioridade_score ?? 0\<close>; with an absent score the fill color
  is green.
\<close>

theorem stylePoints_record:
  assumes "member feature ''properties'' = Inr (Object kvs)"
    and "member (Object kvs) ''prioridade_score'' = Inr p"
    and "p = Undefined \<or> (\<exists>n. p = Number n)"
  shows "(\<exists>fill. getPriorityColor h (nullish_or p (Number (Fin 0))) = Inr fill
            \<and> stylePoints h feature =
                Inr \<lparr>radius = 8, fillColor = fill,
                     color = ''#000'', weight = 1, opacity = 1, fillOpacity = 0.8\<rparr>)
         \<and> (p = Undefined \<longrightarrow>
             stylePoints h feature =
               Inr \<lparr>radius = 8, fillColor = ''green'',
                    color = ''#000'', weight = 1, opacity = 1, fillOpacity = 0.8\<rparr>)"
proof -
  obtain fill where fill: "getPriorityColor h (nullish_or p (Number (Fin 0))) = Inr fill"
    using getPriorityColor_nullish_Inr [OF assms(3)] by blast
  then have "getPriorityColor h (js_or p (Number (Fin 0))) = Inr fill"
    using getPriorityColor_or_nullish [OF assms(3), of h] by simp
  then have run: "stylePoints h feature =
      Inr \<lparr>radius = 8, fillColor = fill,
           color = ''#000'', weight = 1, opacity = 1, fillOpacity = 0.8\<rparr>"
    using assms(1,2) by (simp add: stylePoints_def)
  have "p = Undefined \<longrightarrow> fill = ''green''"
    using fill by (auto simp: nullish_or_def getPriorityColor_def js_ge_Number)
  with fill run show ?thesis
    by blast
qed

theorem stylePoints_record_witness:
  "stylePoints (sample_host Pending)
       (sample_feature (Object [(''prioridade_score'', Number (Fin 3))])) =
     Inr \<lparr>radius = 8, fillColor = ''orange'',
          color = ''#000'', weight = 1, opacity = 1, fillOpacity = 0.8\<rparr>
   \<and> stylePoints (sample_host Pending)
       (sample_feature (Object [(''prioridade_score'', Number (Fin 1))])) =
     Inr \<lparr>radius = 8, fillColor = ''green'',
          color = ''#000'', weight = 1, opacity = 1, fillOpacity = 0.8\<rparr>
   \<and> stylePoints (sample_host Pending) (sample_feature (Object [])) =
     Inr \<lparr>radius = 8, fillColor = ''green'',
          color = ''#000'', weight = 1, opacity = 1, fillOpacity = 0.8\<rparr>"
  using stylePoints_record
      [of "sample_feature (Object [(''prioridade_score'', Number (Fin 3))])"
          "[(''prioridade_score'', Number (Fin 3))]" "Number (Fin 3)" "sample_host Pending"]
    stylePoints_record
      [of "sample_feature (Object [(''prioridade_score'', Number (Fin 1))])"
          "[(''prioridade_score'', Number (Fin 1))]" "Number (Fin 1)" "sample_host Pending"]
    stylePoints_record
      [of "sample_feature (Object [])" "[]" Undefined "sample_host Pending"]
  by (auto simp: nullish_or_def getPriorityColor_def js_ge_Number)

section \<open>The popup builder\<close>

lemma popupValues_empty:
  "popupValues h (Object []) =
     Inr [''N/A'', ''N/A'', ''N/A'', ''N/A'', ''0'', ''N/A'', ''Invalid Date'']"
  by (simp add: popupValues_def js_or_def Number_toString_0 newDate_Undefined
      toLocaleString_def)

lemma popupLines_empty:
  "popupLines h (Object []) =
     Inr (popupLine ''Tipo'' ''N/A''
        @ popupLine (''Descri'' @ c_cedilla @ a_tilde @ ''o'') ''N/A''
        @ popupLine ''Intensidade'' ''N/A''
        @ popupLine ''Origem'' ''N/A''
        @ popupLine ''Prioridade'' ''0''
        @ popupLine ''Status'' ''N/A''
        @ popupLine ''Reportado em'' ''Invalid Date''
        @ nl 8)"
  by (simp add: popupLines_def popupValues_empty popupTemplate_7)

text \<open>
  C5. For a feature whose properties object is empty, the popup builder binds a popup
  whose content has \<^verbatim>\<open>N/A\<close> on the lines of leak type, description, intensity,
  origin and status, and \<^verbatim>\<open>0\<close> on the line of the priority score.
\<close>

theorem popup_empty_properties:
  assumes "member feature ''properties'' = Inr (Object [])"
  shows "\<exists>content.
           onEachFeature h feature l = Inr (bindPopup content l)
         \<and> content =
             popupLine ''Tipo'' ''N/A''
             @ popupLine (''Descri'' @ c_cedilla @ a_tilde @ ''o'') ''N/A''
             @ popupLine ''Intensidade'' ''N/A''
             @ popupLine ''Origem'' ''N/A''
             @ popupLine ''Prioridade'' ''0''
             @ popupLine ''Status'' ''N/A''
             @ popupLine ''Reportado em'' ''Invalid Date''
             @ nl 8
         \<and> sublist ''<b>Tipo:</b> N/A<br>'' content
         \<and> sublist (''<b>Descri'' @ c_cedilla @ a_tilde @ ''o:</b> N/A<br>'') content
         \<and> sublist ''<b>Intensidade:</b> N/A<br>'' content
         \<and> sublist ''<b>Origem:</b> N/A<br>'' content
         \<and> sublist ''<b>Prioridade:</b> 0<br>'' content
         \<and> sublist ''<b>Status:</b> N/A<br>'' content"
proof -
  let ?c = "popupLine ''Tipo'' ''N/A''
             @ popupLine (''Descri'' @ c_cedilla @ a_tilde @ ''o'') ''N/A''
             @ popupLine ''Intensidade'' ''N/A''
             @ popupLine ''Origem'' ''N/A''
             @ popupLine ''Prioridade'' ''0''
             @ popupLine ''Status'' ''N/A''
             @ popupLine ''Reportado em'' ''Invalid Date''
             @ nl 8"
  have run: "onEachFeature h feature l = Inr (bindPopup ?c l)"
    using assms by (simp add: onEachFeature_def popupLines_empty)
  have line: "sublist (''<b>'' @ a @ '':</b> '' @ v @ ''<br>'') (popupLine a v)" for a v
    by (simp add: popupLine_def)
  have "sublist ''<b>Tipo:</b> N/A<br>'' ?c"
    using line [of "''Tipo''" "''N/A''"] by (simp add: sublist_append)
  moreover have "sublist (''<b>Descri'' @ c_cedilla @ a_tilde @ ''o:</b> N/A<br>'') ?c"
    using line [of "''Descri'' @ c_cedilla @ a_tilde @ ''o''" "''N/A''"]
    by (simp add: sublist_append)
  moreover have "sublist ''<b>Intensidade:</b> N/A<br>'' ?c"
    using line [of "''Intensidade''" "''N/A''"] by (simp add: sublist_append)
  moreover have "sublist ''<b>Origem:</b> N/A<br>'' ?c"
    using line [of "''Origem''" "''N/A''"] by (simp add: sublist_append)
  moreover have "sublist ''<b>Prioridade:</b> 0<br>'' ?c"
    using line [of "''Prioridade''" "''0''"] by (simp add: sublist_append)
  moreover have "sublist ''<b>Status:</b> N/A<br>'' ?c"
    using line [of "''Status''" "''N/A''"] by (simp add: sublist_append)
  ultimately show ?thesis
    using run by blast
qed

theorem popup_empty_properties_witness:
  "\<exists>content.
     onEachFeature (sample_host Pending) (sample_feature (Object [])) sample_layer
       = Inr (bindPopup content sample_layer)
     \<and> sublist ''<b>Tipo:</b> N/A<br>'' content
     \<and> sublist ''<b>Prioridade:</b> 0<br>'' content
     \<and> sublist ''<b>Status:</b> N/A<br>'' content"
  using popup_empty_properties
    [of "sample_feature (Object [])" "sample_host Pending" sample_layer]
  by auto

section \<open>The fetch chain\<close>

lemma on_error_effect:
  "console (on_error e w) = console w @ [ConsoleError ''Erro ao carregar dados WFS:'' (Some e)]"
  "alerts (on_error e w) =
     alerts w @ [''N'' @ a_tilde @ ''o foi poss'' @ i_acute
       @ ''vel carregar os dados de vazamentos. Verifique a URL do WFS e o servidor.'']"
  "map_global (on_error e w) = map_global w"
  "config_global (on_error e w) = config_global w"
  "uncaught (on_error e w) = uncaught w"
  by (simp_all add: on_error_def alert_def console_error_def)

lemma on_data_config: "config_global (snd (on_data h d w)) = config_global w"
  by (simp add: on_data_def console_log_def split: sum.splits)

text \<open>
  C3. When the fetch resolves with a response that is not ok, the first callback raises
  an error whose message carries the status code; the \<^verbatim>\<open>catch\<close> callback receives
  it, logs it to the console, shows exactly one alert, and the map is left as it was: no
  markers are added.
\<close>

theorem http_failure_reported_once:
  assumes "fetch h (wfsServiceUrl c) = Fulfilled r" and "\<not> ok r"
  shows "on_response r = Inl (Error (''Erro HTTP! Status: '' @ digits10 (status r)))
       \<and> fetch_chain h c w = on_error (Error (''Erro HTTP! Status: '' @ digits10 (status r))) w
       \<and> console (fetch_chain h c w) =
           console w @ [ConsoleError ''Erro ao carregar dados WFS:''
                          (Some (Error (''Erro HTTP! Status: '' @ digits10 (status r))))]
       \<and> alerts (fetch_chain h c w) =
           alerts w @ [''N'' @ a_tilde @ ''o foi poss'' @ i_acute
             @ ''vel carregar os dados de vazamentos. Verifique a URL do WFS e o servidor.'']
       \<and> map_global (fetch_chain h c w) = map_global w"
proof -
  have 1: "on_response r = Inl (Error (''Erro HTTP! Status: '' @ digits10 (status r)))"
    using assms(2) by (simp add: on_response_def)
  have 2: "fetch_chain h c w = on_error (Error (''Erro HTTP! Status: '' @ digits10 (status r))) w"
    using assms(1) 1 by (simp add: fetch_chain_def parsed_def)
  show ?thesis
    using 1 2 by (simp add: on_error_effect)
qed

lemma digits10_500: "digits10 500 = ''500''"
  by (simp add: digits10.simps)

theorem http_failure_reported_once_witness:
  "console (main (sample_host (Fulfilled \<lparr>ok = False, status = 500, json = Pending\<rparr>)) page) =
     [ConsoleError ''Erro ao carregar dados WFS:'' (Some (Error ''Erro HTTP! Status: 500''))]
   \<and> alerts (main (sample_host (Fulfilled \<lparr>ok = False, status = 500, json = Pending\<rparr>)) page) =
     [''N'' @ a_tilde @ ''o foi poss'' @ i_acute
        @ ''vel carregar os dados de vazamentos. Verifique a URL do WFS e o servidor.'']
   \<and> map_global (main (sample_host (Fulfilled \<lparr>ok = False, status = 500, json = Pending\<rparr>)) page) =
     Some (bootstrap config_js)
   \<and> layers (bootstrap config_js) =
     [TileLayer (osmTileUrl config_js) (osmAttribution config_js) 19]"
proof -
  let ?r = "\<lparr>ok = False, status = 500, json = Pending\<rparr>"
  let ?h = "sample_host (Fulfilled ?r)"
  let ?w = "page\<lparr>map_global := Some (bootstrap config_js)\<rparr>"
  have f: "fetch ?h (wfsServiceUrl config_js) = Fulfilled ?r"
    by (simp add: sample_host_def)
  have nok: "\<not> ok ?r"
    by simp
  have m: "main ?h page = fetch_chain ?h config_js ?w"
    by (simp add: main_def page_def)
  have w: "console ?w = []" "alerts ?w = []" "map_global ?w = Some (bootstrap config_js)"
    by (simp_all add: page_def)
  have l: "layers (bootstrap config_js) =
             [TileLayer (osmTileUrl config_js) (osmAttribution config_js) 19]"
    by (simp add: bootstrap_def addTo_def setView_def L_map_def)
  show ?thesis
    unfolding m using http_failure_reported_once [OF f nok, of ?w] w l
    by (simp add: digits10_500 on_error_effect)
qed

text \<open>
  C4. The marker layer is added to the map only when the fetch was fulfilled with an ok
  response and its whole body was parsed: while the fetch or the parsing is pending, and
  on a rejected fetch, a response that is not ok, a body that does not parse, or an
  exception while the layer is built, the map keeps exactly the layers it had. When the
  map changes, it is by one \<^verbatim>\<open>addTo\<close> of the one layer that holds every feature
  layer built from the parsed data.
\<close>

theorem markers_only_after_full_parse:
  assumes "map_global w = Some m"
  shows "(fetch h (wfsServiceUrl c) = Pending \<longrightarrow> map_global (fetch_chain h c w) = Some m)
       \<and> (\<forall>e. fetch h (wfsServiceUrl c) = Rejected e \<longrightarrow>
             map_global (fetch_chain h c w) = Some m)
       \<and> (\<forall>r. fetch h (wfsServiceUrl c) = Fulfilled r \<and> \<not> ok r \<longrightarrow>
             map_global (fetch_chain h c w) = Some m)
       \<and> (\<forall>r. fetch h (wfsServiceUrl c) = Fulfilled r \<and> ok r \<and> json r = Pending \<longrightarrow>
             map_global (fetch_chain h c w) = Some m)
       \<and> (\<forall>r e. fetch h (wfsServiceUrl c) = Fulfilled r \<and> ok r \<and> json r = Rejected e \<longrightarrow>
             map_global (fetch_chain h c w) = Some m)
       \<and> (\<forall>r d e. fetch h (wfsServiceUrl c) = Fulfilled r \<and> ok r \<and> json r = Fulfilled d
               \<and> geoJSON h d (pointToLayer h) (onEachFeature h) = Inl e \<longrightarrow>
             map_global (fetch_chain h c w) = Some m)
       \<and> (\<forall>r d ls. fetch h (wfsServiceUrl c) = Fulfilled r \<and> ok r \<and> json r = Fulfilled d
               \<and> geoJSON h d (pointToLayer h) (onEachFeature h) = Inr ls \<longrightarrow>
             map_global (fetch_chain h c w) = Some (m\<lparr>layers := layers m @ [GeoJSON ls]\<rparr>))
       \<and> (map_global (fetch_chain h c w) \<noteq> Some m \<longrightarrow>
             (\<exists>r d ls. fetch h (wfsServiceUrl c) = Fulfilled r \<and> ok r \<and> json r = Fulfilled d
                \<and> geoJSON h d (pointToLayer h) (onEachFeature h) = Inr ls
                \<and> map_global (fetch_chain h c w) = Some (m\<lparr>layers := layers m @ [GeoJSON ls]\<rparr>)))"
  using assms
  by (auto simp: fetch_chain_def parsed_def on_response_def on_data_def on_error_effect
      console_log_def addTo_def split: promise.splits sum.splits)


lemma sample_run_red:
  "\<exists>l. sample_geoJSON
          (sample_collection [sample_feature (Object [(''prioridade_score'', Number (Fin 7))])])
          (pointToLayer h) (onEachFeature h) = Inr [l]
       \<and> shape l = CircleMarker (- 23.5505, - 46.6333)
                     \<lparr>radius = 8, fillColor = ''red'', color = ''#000'', weight = 1,
                      opacity = 1, fillOpacity = 0.8\<rparr>"
  by (simp add: sample_geoJSON_def sample_collection_def sample_latlng_def sample_feature_def
      pointToLayer_def stylePoints_def js_or_def getPriorityColor_def js_ge_Number
      onEachFeature_def popupLines_def popupValues_def newDate_Undefined bindPopup_def)

theorem markers_only_after_full_parse_witness:
  "(\<exists>l. map_global
          (main (sample_host (Fulfilled \<lparr>ok = True, status = 200, json = Fulfilled
             (sample_collection
                [sample_feature (Object [(''prioridade_score'', Number (Fin 7))])])\<rparr>)) page) =
          Some ((bootstrap config_js)
                  \<lparr>layers := layers (bootstrap config_js) @ [GeoJSON [l]]\<rparr>)
        \<and> shape l = CircleMarker (- 23.5505, - 46.6333)
                      \<lparr>radius = 8, fillColor = ''red'', color = ''#000'', weight = 1,
                       opacity = 1, fillOpacity = 0.8\<rparr>)
   \<and> map_global
        (main (sample_host (Fulfilled \<lparr>ok = True, status = 200,
                 json = Rejected (HostError ''SyntaxError'')\<rparr>)) page) =
        Some (bootstrap config_js)"
proof -
  let ?d = "sample_collection [sample_feature (Object [(''prioridade_score'', Number (Fin 7))])]"
  let ?r = "\<lparr>ok = True, status = 200, json = Fulfilled ?d\<rparr>"
  let ?h = "sample_host (Fulfilled ?r)"
  let ?r' = "\<lparr>ok = True, status = 200, json = Rejected (HostError ''SyntaxError'')\<rparr>"
  let ?h' = "sample_host (Fulfilled ?r')"
  let ?w = "page\<lparr>map_global := Some (bootstrap config_js)\<rparr>"
  have w: "map_global ?w = Some (bootstrap config_js)"
    by simp
  have m: "main k page = fetch_chain k config_js ?w" for k
    by (simp add: main_def page_def)
  obtain l where l: "geoJSON ?h ?d (pointToLayer ?h) (onEachFeature ?h) = Inr [l]"
    "shape l = CircleMarker (- 23.5505, - 46.6333)
                 \<lparr>radius = 8, fillColor = ''red'', color = ''#000'', weight = 1,
                  opacity = 1, fillOpacity = 0.8\<rparr>"
    using sample_run_red [of ?h] by (auto simp: sample_host_def)
  have f: "fetch ?h (wfsServiceUrl config_js) = Fulfilled ?r"
    "fetch ?h' (wfsServiceUrl config_js) = Fulfilled ?r'"
    by (simp_all add: sample_host_def)
  have "map_global (fetch_chain ?h config_js ?w) =
          Some ((bootstrap config_js)\<lparr>layers := layers (bootstrap config_js) @ [GeoJSON [l]]\<rparr>)"
    using markers_only_after_full_parse [OF w, of ?h config_js] f(1) l(1) by simp
  moreover have "map_global (fetch_chain ?h' config_js ?w) = Some (bootstrap config_js)"
    using markers_only_after_full_parse [OF w, of ?h' config_js] f(2) by simp
  ultimately show ?thesis
    using l(2) by (auto simp: m)
qed

section \<open>The configuration object\<close>

text \<open>
  C8. No step of the script changes the configuration object: after the whole script,
  after the fetch chain, and after each of its callbacks, the global \<^verbatim>\<open>config\<close> is
  what it was before; started on the page with \<^verbatim>\<open>config.js\<close> loaded, the script
  ends with all six fields at their initial values.
\<close>

theorem config_never_mutated:
  "config_global (main h w) = config_global w
   \<and> config_global (fetch_chain h c w) = config_global w
   \<and> config_global (snd (on_data h d w)) = config_global w
   \<and> config_global (on_error e w) = config_global w
   \<and> config_global (main h page) = Some config_js"
proof -
  have 1: "config_global (fetch_chain k c' w') = config_global w'" for k c' w'
    by (simp add: fetch_chain_def on_error_effect on_data_def console_log_def
        split: promise.splits sum.splits)
  have 2: "config_global (main k w') = config_global w'" for k w'
    by (simp add: main_def 1 console_error_def split: option.splits)
  show ?thesis
    by (simp add: 1 2 on_data_config on_error_effect page_def)
qed

theorem config_never_mutated_witness:
  "config_global
     (main (sample_host (Fulfilled \<lparr>ok = False, status = 500, json = Pending\<rparr>)) page)
   = Some config_js
   \<and> config_global
     (main (sample_host (Fulfilled \<lparr>ok = True, status = 200, json = Fulfilled
        (sample_collection
           [sample_feature (Object [(''prioridade_score'', Number (Fin 7))])])\<rparr>)) page)
   = Some config_js"
  using config_never_mutated
    [of "sample_host (Fulfilled \<lparr>ok = False, status = 500, json = Pending\<rparr>)" page
        config_js Null TypeError]
    config_never_mutated
    [of "sample_host (Fulfilled \<lparr>ok = True, status = 200, json = Fulfilled
        (sample_collection
           [sample_feature (Object [(''prioridade_score'', Number (Fin 7))])])\<rparr>)" page
        config_js Null TypeError]
  by (simp add: page_def)

section \<open>The unguarded and the guarded property read\<close>

lemma member_Inr_not_nullish: "member v k = Inr x \<Longrightarrow> v \<noteq> Undefined \<and> v \<noteq> Null"
  by (cases v) auto

text \<open>
  The style mapper on a feature whose properties can be read: it raises exactly when the
  conversion of the score to a primitive does.
\<close>

lemma stylePoints_score:
  assumes "member feature ''properties'' = Inr props"
    and "member props ''prioridade_score'' = Inr p"
  shows "(\<exists>s. stylePoints h feature = Inr s)
         \<longleftrightarrow> (\<exists>q. ToPrimitive h (js_or p (Number (Fin 0))) = Inr q)"
  using assms
  by (cases "ToPrimitive h (js_or p (Number (Fin 0)))")
    (auto simp: stylePoints_def getPriorityColor_cases bind_exn_eq_Inr
      split: sum.splits bool.splits)

lemma js_or_primitive: "is_primitive p \<Longrightarrow> is_primitive (js_or p (Number (Fin 0)))"
  by (simp add: js_or_def)

text \<open>
  C9, as amended. The style mapper reads \<^verbatim>\<open>feature.properties.prioridade_score\<close>
  without a guard. It returns a style record exactly when the properties of the feature
  are neither \<^verbatim>\<open>undefined\<close> nor \<^verbatim>\<open>null\<close> and the score, \<^verbatim>\<open>prioridade_score || 0\<close>,
  converts to a primitive without raising; so it always returns one for a feature that
  carries a properties object whose score is absent or a primitive value, and it raises
  a TypeError for a feature whose properties are \<^verbatim>\<open>undefined\<close> or \<^verbatim>\<open>null\<close>. The
  popup builder guards that case: whenever the properties are falsy, in particular
  \<^verbatim>\<open>undefined\<close> or \<^verbatim>\<open>null\<close>, it returns the layer as it got it, with no popup
  bound.
\<close>

theorem stylePoints_unguarded_onEachFeature_guarded:
  "((\<exists>s. stylePoints h feature = Inr s) \<longleftrightarrow>
      (\<exists>props p q. member feature ''properties'' = Inr props
         \<and> props \<noteq> Undefined \<and> props \<noteq> Null
         \<and> member props ''prioridade_score'' = Inr p
         \<and> ToPrimitive h (js_or p (Number (Fin 0))) = Inr q))
   \<and> (member feature ''properties'' = Inr (Object kvs)
        \<and> member (Object kvs) ''prioridade_score'' = Inr score \<and> is_primitive score \<longrightarrow>
        (\<exists>s. stylePoints h feature = Inr s))
   \<and> (member feature ''properties'' = Inr Undefined \<or> member feature ''properties'' = Inr Null \<longrightarrow>
        stylePoints h feature = Inl TypeError \<and> onEachFeature h feature l = Inr l)
   \<and> (\<forall>props. member feature ''properties'' = Inr props \<and> \<not> ToBoolean props \<longrightarrow>
        onEachFeature h feature l = Inr l)"
proof -
  have 1: "(\<exists>s. stylePoints h feature = Inr s) \<longleftrightarrow>
      (\<exists>props p q. member feature ''properties'' = Inr props
         \<and> props \<noteq> Undefined \<and> props \<noteq> Null
         \<and> member props ''prioridade_score'' = Inr p
         \<and> ToPrimitive h (js_or p (Number (Fin 0))) = Inr q)"
  proof
    assume "\<exists>s. stylePoints h feature = Inr s"
    then obtain s props p where props: "member feature ''properties'' = Inr props"
      and p: "member props ''prioridade_score'' = Inr p"
      and s: "stylePoints h feature = Inr s"
      unfolding stylePoints_def bind_exn_eq_Inr by blast
    from s obtain q where "ToPrimitive h (js_or p (Number (Fin 0))) = Inr q"
      using stylePoints_score [OF props p, of h] by blast
    with props p member_Inr_not_nullish [OF p]
    show "\<exists>props p q. member feature ''properties'' = Inr props
         \<and> props \<noteq> Undefined \<and> props \<noteq> Null
         \<and> member props ''prioridade_score'' = Inr p
         \<and> ToPrimitive h (js_or p (Number (Fin 0))) = Inr q"
      by blast
  next
    assume "\<exists>props p q. member feature ''properties'' = Inr props
         \<and> props \<noteq> Undefined \<and> props \<noteq> Null
         \<and> member props ''prioridade_score'' = Inr p
         \<and> ToPrimitive h (js_or p (Number (Fin 0))) = Inr q"
    then show "\<exists>s. stylePoints h feature = Inr s"
      using stylePoints_score [of feature _ _ h] by blast
  qed
  have 2: "member feature ''properties'' = Inr (Object kvs)
        \<and> member (Object kvs) ''prioridade_score'' = Inr score \<and> is_primitive score \<longrightarrow>
        (\<exists>s. stylePoints h feature = Inr s)"
    using stylePoints_score [of feature "Object kvs" score h]
      ToPrimitive_primitive [OF js_or_primitive, of score h]
    by blast
  have 3: "member feature ''properties'' = Inr Undefined \<or> member feature ''properties'' = Inr Null \<longrightarrow>
        stylePoints h feature = Inl TypeError \<and> onEachFeature h feature l = Inr l"
    by (auto simp: stylePoints_def onEachFeature_def)
  have 4: "\<forall>props. member feature ''properties'' = Inr props \<and> \<not> ToBoolean props \<longrightarrow>
        onEachFeature h feature l = Inr l"
    by (simp add: onEachFeature_def)
  from 1 2 3 4 show ?thesis
    by blast
qed

theorem stylePoints_unguarded_onEachFeature_guarded_witness:
  "(\<exists>s. stylePoints (sample_host Pending) (sample_feature (Object [])) = Inr s)
   \<and> stylePoints (sample_host Pending) (Object [(''type'', String ''Feature'')]) = Inl TypeError
   \<and> onEachFeature (sample_host Pending) (Object [(''type'', String ''Feature'')]) sample_layer
       = Inr sample_layer
   \<and> stylePoints (sample_host Pending) (sample_feature Null) = Inl TypeError
   \<and> onEachFeature (sample_host Pending) (sample_feature Null) sample_layer = Inr sample_layer
   \<and> onEachFeature (sample_host Pending) (sample_feature (Number (Fin 0))) sample_layer
       = Inr sample_layer"
  using stylePoints_unguarded_onEachFeature_guarded
      [of "sample_host Pending" "sample_feature (Object [])" "[]" Undefined sample_layer]
    stylePoints_unguarded_onEachFeature_guarded
      [of "sample_host Pending" "Object [(''type'', String ''Feature'')]" "[]" Undefined
          sample_layer]
    stylePoints_unguarded_onEachFeature_guarded
      [of "sample_host Pending" "sample_feature Null" "[]" Undefined sample_layer]
    stylePoints_unguarded_onEachFeature_guarded
      [of "sample_host Pending" "sample_feature (Number (Fin 0))" "[]" Undefined sample_layer]
  by (simp add: js_or_def ToPrimitive_def)

text \<open>
  A feature that carries a properties object whose score is an object with a
  \<^verbatim>\<open>toString\<close> key of its own: the comparison \<^verbatim>\<open>score >= 5\<close> raises a TypeError,
  so the style mapper returns no style record. And a feature whose properties are a
  string, not an object: the style mapper returns a style record and the popup builder
  binds a popup.
\<close>

theorem stylePoints_properties_object_counterexample:
  "stylePoints (sample_host Pending)
      (sample_feature
         (Object [(''prioridade_score'', Object [(''toString'', Number (Fin 1))])]))
     = Inl TypeError
   \<and> stylePoints (sample_host Pending) (sample_feature (String ''abc'')) =
       Inr \<lparr>radius = 8, fillColor = ''green'',
            color = ''#000'', weight = 1, opacity = 1, fillOpacity = 0.8\<rparr>
   \<and> onEachFeature (sample_host Pending) (sample_feature (String ''abc'')) sample_layer =
       Inr (bindPopup
              (popupLine ''Tipo'' ''N/A''
               @ popupLine (''Descri'' @ c_cedilla @ a_tilde @ ''o'') ''N/A''
               @ popupLine ''Intensidade'' ''N/A''
               @ popupLine ''Origem'' ''N/A''
               @ popupLine ''Prioridade'' ''0''
               @ popupLine ''Status'' ''N/A''
               @ popupLine ''Reportado em'' ''Invalid Date''
               @ nl 8) sample_layer)"
proof -
  have "popupValues h (String ''abc'') = popupValues h (Object [])" for h
    by (simp add: popupValues_def)
  then have "popupLines h (String ''abc'') = popupLines h (Object [])" for h
    by (simp add: popupLines_def)
  then show ?thesis
    by (simp add: stylePoints_def onEachFeature_def popupLines_empty js_or_def
        getPriorityColor_def js_ge_def ToNumber_def ToPrimitive_def js_ge_Number)
qed

section \<open>The popup content\<close>

text \<open>
  Where an \<^verbatim>\<open>img\<close> element can stand in the popup text. The fixed text of the
  template has none, and none can straddle a value and the fixed text next to it: the
  fixed text before a value ends with a blank, and the fixed text after it begins with
  \<^verbatim>\<open><br>\<close>.
\<close>

lemma img_parts:
  "''<img'' = xs @ ys \<longleftrightarrow>
     xs = [] \<and> ys = ''<img'' \<or> xs = ''<'' \<and> ys = ''img'' \<or> xs = ''<i'' \<and> ys = ''mg''
     \<or> xs = ''<im'' \<and> ys = ''g'' \<or> xs = ''<img'' \<and> ys = []"
  by (auto simp: Cons_eq_append_conv)

lemma suffix_last: "suffix xs f \<Longrightarrow> xs \<noteq> [] \<Longrightarrow> last f = last xs"
  by (auto simp: suffix_def)

lemma prefix_hd: "prefix ys f \<Longrightarrow> ys \<noteq> [] \<Longrightarrow> hd f = hd ys"
  by (auto simp: prefix_def)

lemma img_after_fixed:
  assumes "last f \<notin> {CHR ''<'', CHR ''i'', CHR ''m''}"
  shows "sublist ''<img'' (f @ r) \<longleftrightarrow> sublist ''<img'' f \<or> sublist ''<img'' r"
proof
  assume "sublist ''<img'' (f @ r)"
  then consider "sublist ''<img'' f" | "sublist ''<img'' r"
    | xs ys where "''<img'' = xs @ ys" "suffix xs f" "prefix ys r"
    unfolding sublist_append by blast
  then show "sublist ''<img'' f \<or> sublist ''<img'' r"
  proof cases
    case 3
    from 3(1) consider "xs = []" "ys = ''<img''" | "xs = ''<''" | "xs = ''<i''"
      | "xs = ''<im''" | "xs = ''<img''"
      unfolding img_parts by blast
    then show ?thesis
    proof cases
      case 1
      with 3(3) show ?thesis by (simp add: prefix_imp_sublist)
    next
      case 2
      with 3(2) assms show ?thesis using suffix_last [of xs f] by simp
    next
      case 3
      with \<open>suffix xs f\<close> assms show ?thesis using suffix_last [of xs f] by simp
    next
      case 4
      with \<open>suffix xs f\<close> assms show ?thesis using suffix_last [of xs f] by simp
    next
      case 5
      with \<open>suffix xs f\<close> show ?thesis by (simp add: suffix_imp_sublist)
    qed
  qed simp_all
next
  assume "sublist ''<img'' f \<or> sublist ''<img'' r"
  then show "sublist ''<img'' (f @ r)"
    by (auto simp: sublist_append)
qed

lemma img_before_fixed:
  assumes "f \<noteq> []" and "hd f \<notin> {CHR ''i'', CHR ''m'', CHR ''g''}"
  shows "sublist ''<img'' (v @ f) \<longleftrightarrow> sublist ''<img'' v \<or> sublist ''<img'' f"
proof
  assume "sublist ''<img'' (v @ f)"
  then consider "sublist ''<img'' v" | "sublist ''<img'' f"
    | xs ys where "''<img'' = xs @ ys" "suffix xs v" "prefix ys f"
    unfolding sublist_append by blast
  then show "sublist ''<img'' v \<or> sublist ''<img'' f"
  proof cases
    case 3
    from 3(1) consider "ys = ''<img''" | "ys = ''img''" | "ys = ''mg''"
      | "ys = ''g''" | "xs = ''<img''" "ys = []"
      unfolding img_parts by blast
    then show ?thesis
    proof cases
      case 1
      with 3(3) show ?thesis by (simp add: prefix_imp_sublist)
    next
      case 2
      with 3(3) assms show ?thesis using prefix_hd [of ys f] by simp
    next
      case 3
      with \<open>prefix ys f\<close> assms show ?thesis using prefix_hd [of ys f] by simp
    next
      case 4
      with \<open>prefix ys f\<close> assms show ?thesis using prefix_hd [of ys f] by simp
    next
      case 5
      with \<open>suffix xs v\<close> show ?thesis by (simp add: suffix_imp_sublist)
    qed
  qed simp_all
next
  assume "sublist ''<img'' v \<or> sublist ''<img'' f"
  then show "sublist ''<img'' (v @ f)"
    by (auto simp: sublist_append)
qed

lemma img_popupLine:
  assumes "\<not> sublist ''<img'' (nl 12 @ ''<b>'' @ a @ '':</b> '')"
  shows "sublist ''<img'' (popupLine a v @ r) \<longleftrightarrow> sublist ''<img'' v \<or> sublist ''<img'' r"
proof -
  let ?f = "nl 12 @ ''<b>'' @ a @ '':</b> ''"
  have shape: "popupLine a v @ r = ?f @ (v @ (''<br>'' @ r))"
    by (simp add: popupLine_def)
  have "sublist ''<img'' (?f @ (v @ (''<br>'' @ r))) \<longleftrightarrow> sublist ''<img'' (v @ (''<br>'' @ r))"
    using img_after_fixed [of ?f "v @ (''<br>'' @ r)"] assms by simp
  also have "\<dots> \<longleftrightarrow> sublist ''<img'' v \<or> sublist ''<img'' (''<br>'' @ r)"
    using img_before_fixed [of "''<br>'' @ r" v] by simp
  also have "sublist ''<img'' (''<br>'' @ r) \<longleftrightarrow> sublist ''<img'' r"
    using img_after_fixed [of "''<br>''" r] by (simp add: sublist_Cons_right)
  finally show ?thesis
    by (simp only: shape)
qed

lemma no_img_in_labels:
  "\<not> sublist ''<img'' (nl 12 @ ''<b>'' @ ''Tipo'' @ '':</b> '')"
  "\<not> sublist ''<img'' (nl 12 @ ''<b>'' @ (''Descri'' @ c_cedilla @ a_tilde @ ''o'') @ '':</b> '')"
  "\<not> sublist ''<img'' (nl 12 @ ''<b>'' @ ''Intensidade'' @ '':</b> '')"
  "\<not> sublist ''<img'' (nl 12 @ ''<b>'' @ ''Origem'' @ '':</b> '')"
  "\<not> sublist ''<img'' (nl 12 @ ''<b>'' @ ''Prioridade'' @ '':</b> '')"
  "\<not> sublist ''<img'' (nl 12 @ ''<b>'' @ ''Status'' @ '':</b> '')"
  "\<not> sublist ''<img'' (nl 12 @ ''<b>'' @ ''Reportado em'' @ '':</b> '')"
  "\<not> sublist ''<img'' (nl 8)"
  by (simp_all add: nl_def c_cedilla_def a_tilde_def sublist_Cons_right eval_nat_numeral)

text \<open>The popup text has an \<^verbatim>\<open>img\<close> element exactly when a substituted value has.\<close>

lemma img_popupTemplate:
  "sublist ''<img'' (popupTemplate [v1, v2, v3, v4, v5, v6, v7]) \<longleftrightarrow>
     (\<exists>v \<in> set [v1, v2, v3, v4, v5, v6, v7]. sublist ''<img'' v)"
  unfolding popupTemplate_7
  by (simp only: img_popupLine [OF no_img_in_labels(1)] img_popupLine [OF no_img_in_labels(2)]
      img_popupLine [OF no_img_in_labels(3)] img_popupLine [OF no_img_in_labels(4)]
      img_popupLine [OF no_img_in_labels(5)] img_popupLine [OF no_img_in_labels(6)]
      img_popupLine [OF no_img_in_labels(7)] no_img_in_labels(8)) auto

lemma has_image_bindPopup: "has_image (Inr (bindPopup content l)) = sublist ''<img'' content"
  by (simp add: has_image_def bindPopup_def)

lemma sublist_img_popupImg: "sublist ''<img'' (body @ popupImg url)"
proof -
  have "sublist ''<img'' (popupImg url)"
    by (simp add: popupImg_def prefix_imp_sublist)
  then show ?thesis
    by (simp add: sublist_append)
qed

text \<open>The popup builder on truthy properties, when no conversion raises.\<close>

lemma onEachFeature_truthy:
  assumes "member feature ''properties'' = Inr props" and "ToBoolean props"
    and "popupValues h props = Inr vs" and "member props ''foto_url'' = Inr foto"
    and "\<not> ToBoolean foto \<or> ToString h foto = Inr url"
  shows "onEachFeature h feature l =
           Inr (bindPopup (popupTemplate vs @ (if ToBoolean foto then popupImg url else [])) l)"
  using assms by (auto simp: onEachFeature_def popupLines_def)

text \<open>What the popup builder has done when it returns a layer for truthy properties.\<close>

lemma onEachFeature_returns:
  assumes "member feature ''properties'' = Inr props" and "ToBoolean props"
    and "onEachFeature h feature l = Inr l'"
  shows "\<exists>vs img. popupValues h props = Inr vs \<and> l' = bindPopup (popupTemplate vs @ img) l"
proof -
  from assms obtain vs foto where vs: "popupValues h props = Inr vs"
    and foto: "member props ''foto_url'' = Inr foto"
    and l': "(if ToBoolean foto
              then bind_exn (ToString h foto) (\<lambda>url.
                     Inr (bindPopup (popupTemplate vs @ popupImg url) l))
              else Inr (bindPopup (popupTemplate vs) l)) = Inr l'"
    by (auto simp: onEachFeature_def popupLines_def bind_exn_eq_Inr)
  show ?thesis
  proof (cases "ToBoolean foto")
    case True
    with l' obtain url where "l' = bindPopup (popupTemplate vs @ popupImg url) l"
      by (auto simp: bind_exn_eq_Inr)
    with vs show ?thesis by blast
  next
    case False
    with l' have "l' = bindPopup (popupTemplate vs @ []) l"
      by simp
    with vs show ?thesis by blast
  qed
qed

text \<open>
  C6, as amended. For every feature whose properties are truthy and whose displayed
  attribute values, and \<^verbatim>\<open>foto_url\<close> when it is truthy, convert to strings without
  raising: the popup content is the seven text lines, followed by the image element
  exactly when \<^verbatim>\<open>foto_url\<close> is truthy. The content contains an image reference if and
  only if \<^verbatim>\<open>foto_url\<close> is truthy or one of the seven displayed values contains an
  \<^verbatim>\<open>img\<close> element; so, when no displayed value contains one, it contains an image
  reference if and only if \<^verbatim>\<open>foto_url\<close> is truthy. A \<^verbatim>\<open>foto_url\<close> that is present
  but falsy (null, false, 0, the empty string) appends nothing.
\<close>

theorem popup_image_iff_truthy:
  assumes "member feature ''properties'' = Inr props" and "ToBoolean props"
    and "popupValues h props = Inr vs" and "member props ''foto_url'' = Inr foto"
    and "\<not> ToBoolean foto \<or> ToString h foto = Inr url"
  shows "onEachFeature h feature l =
           Inr (bindPopup (popupTemplate vs @ (if ToBoolean foto then popupImg url else [])) l)
       \<and> (has_image (onEachFeature h feature l) \<longleftrightarrow>
            ToBoolean foto \<or> (\<exists>v \<in> set vs. sublist ''<img'' v))
       \<and> ((\<forall>v \<in> set vs. \<not> sublist ''<img'' v) \<longrightarrow>
            (has_image (onEachFeature h feature l) \<longleftrightarrow> ToBoolean foto))"
proof -
  note run = onEachFeature_truthy [OF assms, of l]
  obtain v1 v2 v3 v4 v5 v6 v7 where vs: "vs = [v1, v2, v3, v4, v5, v6, v7]"
    using popupValues_length [OF assms(3)] by blast
  have img: "sublist ''<img'' (popupTemplate vs) \<longleftrightarrow> (\<exists>v \<in> set vs. sublist ''<img'' v)"
    unfolding vs by (rule img_popupTemplate)
  have "has_image (onEachFeature h feature l) \<longleftrightarrow>
          ToBoolean foto \<or> (\<exists>v \<in> set vs. sublist ''<img'' v)"
  proof (cases "ToBoolean foto")
    case True
    then show ?thesis
      by (simp add: run has_image_bindPopup sublist_img_popupImg)
  next
    case False
    then show ?thesis
      by (simp add: run has_image_bindPopup img)
  qed
  with run show ?thesis
    by blast
qed

lemma popupValues_only_foto:
  "popupValues h (Object [(''foto_url'', v)]) = popupValues h (Object [])"
  by (simp add: popupValues_def)

theorem popup_image_iff_truthy_witness:
  "has_image
     (onEachFeature (sample_host Pending)
        (sample_feature (Object [(''foto_url'', String ''https://example.org/foto.jpg'')]))
        sample_layer)
   \<and> \<not> has_image
         (onEachFeature (sample_host Pending) (sample_feature (Object [])) sample_layer)"
proof -
  let ?h = "sample_host Pending"
  let ?vs = "[''N/A'', ''N/A'', ''N/A'', ''N/A'', ''0'', ''N/A'', ''Invalid Date'']"
  let ?url = "''https://example.org/foto.jpg''"
  let ?p = "Object [(''foto_url'', String ?url)]"
  have clean: "\<not> (\<exists>v \<in> set ?vs. sublist ''<img'' v)"
    by (simp add: sublist_Cons_right)
  have p: "member (sample_feature ?p) ''properties'' = Inr ?p" "ToBoolean ?p"
    "popupValues ?h ?p = Inr ?vs" "member ?p ''foto_url'' = Inr (String ?url)"
    "\<not> ToBoolean (String ?url) \<or> ToString ?h (String ?url) = Inr ?url"
    by (simp_all add: popupValues_only_foto popupValues_empty)
  have q: "member (sample_feature (Object [])) ''properties'' = Inr (Object [])"
    "ToBoolean (Object [])" "popupValues ?h (Object []) = Inr ?vs"
    "member (Object []) ''foto_url'' = Inr Undefined"
    "\<not> ToBoolean Undefined \<or> ToString ?h Undefined = Inr []"
    by (simp_all add: popupValues_empty)
  have "has_image (onEachFeature ?h (sample_feature ?p) sample_layer) \<longleftrightarrow>
      ToBoolean (String ?url) \<or> (\<exists>v \<in> set ?vs. sublist ''<img'' v)"
    using popup_image_iff_truthy [OF p, of sample_layer] by blast
  moreover have "has_image (onEachFeature ?h (sample_feature (Object [])) sample_layer) \<longleftrightarrow>
      ToBoolean Undefined \<or> (\<exists>v \<in> set ?vs. sublist ''<img'' v)"
    using popup_image_iff_truthy [OF q, of sample_layer] by blast
  ultimately show ?thesis
    using clean by simp
qed

text \<open>
  Three features on which the popup does not follow the presence of \<^verbatim>\<open>foto_url\<close>. A
  \<^verbatim>\<open>foto_url\<close> that is present but empty: the guard \<^verbatim>\<open>if (props.foto_url)\<close> is
  false on it, and the popup has no image reference. No \<^verbatim>\<open>foto_url\<close>, and a
  description that holds an \<^verbatim>\<open>img\<close> element: attribute values go into the content as
  they are, so the popup has an image reference. A \<^verbatim>\<open>foto_url\<close> that is an object
  with a \<^verbatim>\<open>toString\<close> key of its own: its conversion to a string raises a TypeError,
  and no popup is bound.
\<close>

theorem popup_image_counterexample:
  "present (Object [(''foto_url'', String [])]) ''foto_url''
   \<and> \<not> has_image
         (onEachFeature (sample_host Pending)
            (sample_feature (Object [(''foto_url'', String [])])) sample_layer)
   \<and> \<not> present (Object [(''descricao_detalhes'', String ''<img src=x>'')]) ''foto_url''
   \<and> has_image
        (onEachFeature (sample_host Pending)
           (sample_feature (Object [(''descricao_detalhes'', String ''<img src=x>'')]))
           sample_layer)
   \<and> present (Object [(''foto_url'', Object [(''toString'', Number (Fin 1))])]) ''foto_url''
   \<and> onEachFeature (sample_host Pending)
        (sample_feature (Object [(''foto_url'', Object [(''toString'', Number (Fin 1))])]))
        sample_layer
      = Inl TypeError"
proof -
  let ?h = "sample_host Pending"
  let ?vs = "[''N/A'', ''N/A'', ''N/A'', ''N/A'', ''0'', ''N/A'', ''Invalid Date'']"
  let ?ws = "[''N/A'', ''<img src=x>'', ''N/A'', ''N/A'', ''0'', ''N/A'', ''Invalid Date'']"
  have "onEachFeature ?h (sample_feature (Object [(''foto_url'', String [])])) sample_layer
        = Inr (bindPopup (popupTemplate ?vs) sample_layer)"
    by (simp add: onEachFeature_def popupLines_def popupValues_only_foto popupValues_empty)
  moreover have "\<not> sublist ''<img'' (popupTemplate ?vs)"
    unfolding img_popupTemplate by (simp add: sublist_Cons_right)
  ultimately have 1: "\<not> has_image
      (onEachFeature ?h (sample_feature (Object [(''foto_url'', String [])])) sample_layer)"
    by (simp add: has_image_bindPopup)
  have "popupValues ?h (Object [(''descricao_detalhes'', String ''<img src=x>'')]) = Inr ?ws"
    by (simp add: popupValues_def js_or_def Number_toString_0 newDate_Undefined
        toLocaleString_def)
  then have "onEachFeature ?h
      (sample_feature (Object [(''descricao_detalhes'', String ''<img src=x>'')])) sample_layer
        = Inr (bindPopup (popupTemplate ?ws) sample_layer)"
    by (simp add: onEachFeature_def popupLines_def)
  moreover have "sublist ''<img'' (popupTemplate ?ws)"
    unfolding img_popupTemplate by (simp add: prefix_imp_sublist)
  ultimately have 2: "has_image (onEachFeature ?h
      (sample_feature (Object [(''descricao_detalhes'', String ''<img src=x>'')])) sample_layer)"
    by (simp add: has_image_bindPopup)
  have 3: "onEachFeature ?h
      (sample_feature (Object [(''foto_url'', Object [(''toString'', Number (Fin 1))])]))
      sample_layer = Inl TypeError"
    by (simp add: onEachFeature_def popupLines_def popupValues_only_foto popupValues_empty)
  from 1 2 3 show ?thesis
    by (simp add: present_def)
qed

text \<open>
  C10, as amended. For every feature with truthy properties whose
  \<^verbatim>\<open>data_submissao\<close> is absent, or is a value from which \<^verbatim>\<open>new Date\<close> makes an
  invalid Date without raising, and for which the popup builder returns, so that no
  displayed value raised on its conversion: no \<^verbatim>\<open>N/A\<close> is substituted for the date.
  The date formats as the text of an invalid Date, and the popup that is bound has that
  text on its \<^verbatim>\<open>Reportado em\<close> line, the seventh, after the six other lines.
\<close>

theorem popup_invalid_date_line:
  assumes "member feature ''properties'' = Inr props" and "ToBoolean props"
    and "member props ''data_submissao'' = Inr d"
    and "d = Undefined \<or> newDate h d = Inr None"
    and "onEachFeature h feature l = Inr l'"
  shows "newDate h d = Inr None
       \<and> toLocaleString h None = ''Invalid Date''
       \<and> (\<exists>v1 v2 v3 v4 v5 v6 img.
             l' = bindPopup
                    (popupLine ''Tipo'' v1
                     @ popupLine (''Descri'' @ c_cedilla @ a_tilde @ ''o'') v2
                     @ popupLine ''Intensidade'' v3
                     @ popupLine ''Origem'' v4
                     @ popupLine ''Prioridade'' v5
                     @ popupLine ''Status'' v6
                     @ popupLine ''Reportado em'' ''Invalid Date''
                     @ nl 8 @ img) l)
       \<and> (\<exists>content. popup l' = Some content
             \<and> sublist ''<b>Reportado em:</b> Invalid Date<br>'' content)
       \<and> popupLine ''Reportado em'' ''Invalid Date'' \<noteq> popupLine ''Reportado em'' ''N/A''"
proof -
  have inv: "newDate h d = Inr None"
    using assms(4) newDate_Undefined [of h] by auto
  obtain vs img where vs: "popupValues h props = Inr vs"
    and l': "l' = bindPopup (popupTemplate vs @ img) l"
    using onEachFeature_returns [OF assms(1,2,5)] by blast
  from vs obtain v1 v2 v3 v4 v5 v6 d' date where d': "member props ''data_submissao'' = Inr d'"
    and date: "newDate h d' = Inr date"
    and vs': "vs = [v1, v2, v3, v4, v5, v6, toLocaleString h date]"
    unfolding popupValues_def bind_exn_eq_Inr by blast
  from d' assms(3) date inv have "date = None"
    by simp
  with vs' have vs'': "vs = [v1, v2, v3, v4, v5, v6, ''Invalid Date'']"
    by (simp add: toLocaleString_def)
  let ?six = "popupLine ''Tipo'' v1
      @ popupLine (''Descri'' @ c_cedilla @ a_tilde @ ''o'') v2
      @ popupLine ''Intensidade'' v3
      @ popupLine ''Origem'' v4
      @ popupLine ''Prioridade'' v5
      @ popupLine ''Status'' v6"
  have shape: "l' = bindPopup (?six @ popupLine ''Reportado em'' ''Invalid Date'' @ nl 8 @ img) l"
    unfolding l' vs'' popupTemplate_7 by simp
  have "sublist ''<b>Reportado em:</b> Invalid Date<br>''
          (?six @ popupLine ''Reportado em'' ''Invalid Date'' @ nl 8 @ img)"
  proof -
    have "sublist ''<b>Reportado em:</b> Invalid Date<br>''
            (popupLine ''Reportado em'' ''Invalid Date'')"
      by (simp add: popupLine_def)
    then show ?thesis
      by (simp add: sublist_append)
  qed
  then have 4: "\<exists>content. popup l' = Some content
      \<and> sublist ''<b>Reportado em:</b> Invalid Date<br>'' content"
    unfolding shape by (simp add: bindPopup_def)
  have 3: "\<exists>v1 v2 v3 v4 v5 v6 img.
             l' = bindPopup
                    (popupLine ''Tipo'' v1
                     @ popupLine (''Descri'' @ c_cedilla @ a_tilde @ ''o'') v2
                     @ popupLine ''Intensidade'' v3
                     @ popupLine ''Origem'' v4
                     @ popupLine ''Prioridade'' v5
                     @ popupLine ''Status'' v6
                     @ popupLine ''Reportado em'' ''Invalid Date''
                     @ nl 8 @ img) l"
    using shape by (simp only: append_assoc) blast
  have 5: "popupLine ''Reportado em'' ''Invalid Date'' \<noteq> popupLine ''Reportado em'' ''N/A''"
    by (simp add: popupLine_def)
  from inv 3 4 5 show ?thesis
    by (simp add: toLocaleString_def)
qed

theorem popup_invalid_date_line_witness:
  "(\<exists>content.
      onEachFeature (sample_host Pending) (sample_feature (Object [])) sample_layer
        = Inr (bindPopup content sample_layer)
      \<and> sublist ''<b>Reportado em:</b> Invalid Date<br>'' content)
   \<and> (\<exists>content.
      onEachFeature (sample_host Pending)
          (sample_feature (Object [(''data_submissao'', String ''ontem'')])) sample_layer
        = Inr (bindPopup content sample_layer)
      \<and> sublist ''<b>Reportado em:</b> Invalid Date<br>'' content)"
proof -
  let ?h = "sample_host Pending"
  let ?p = "Object [(''data_submissao'', String ''ontem'')]"
  have sub: "\<exists>content. r = Inr (bindPopup content sample_layer)
      \<and> sublist ''<b>Reportado em:</b> Invalid Date<br>'' content"
    if "r = Inr l'" "\<exists>content. popup l' = Some content
      \<and> sublist ''<b>Reportado em:</b> Invalid Date<br>'' content"
      "\<exists>c. l' = bindPopup c sample_layer" for r l'
    using that by (auto simp: bindPopup_def)
  have d: "newDate ?h (String ''ontem'') = Inr None"
    by (simp add: newDate_def ToPrimitive_def sample_host_def)
  obtain l1 where l1: "onEachFeature ?h (sample_feature (Object [])) sample_layer = Inr l1"
    by (simp add: onEachFeature_def popupLines_empty)
  have "popupValues ?h ?p =
      Inr [''N/A'', ''N/A'', ''N/A'', ''N/A'', ''0'', ''N/A'', ''Invalid Date'']"
    by (simp add: popupValues_def js_or_def Number_toString_0 d toLocaleString_def)
  then obtain l2 where l2: "onEachFeature ?h (sample_feature ?p) sample_layer = Inr l2"
    by (simp add: onEachFeature_def popupLines_def)
  have 1: "\<exists>content. onEachFeature ?h (sample_feature (Object [])) sample_layer
        = Inr (bindPopup content sample_layer)
      \<and> sublist ''<b>Reportado em:</b> Invalid Date<br>'' content"
    using popup_invalid_date_line
        [of "sample_feature (Object [])" "Object []" Undefined ?h sample_layer l1] l1
    by (intro sub [of _ l1]) auto
  have 2: "\<exists>content. onEachFeature ?h (sample_feature ?p) sample_layer
        = Inr (bindPopup content sample_layer)
      \<and> sublist ''<b>Reportado em:</b> Invalid Date<br>'' content"
    using popup_invalid_date_line
        [of "sample_feature ?p" ?p "String ''ontem''" ?h sample_layer l2] l2 d
    by (intro sub [of _ l2]) auto
  from 1 2 show ?thesis
    by blast
qed

text \<open>
  Two features whose date is absent or not a date, and for which no popup is bound at
  all. With \<^verbatim>\<open>data_submissao\<close> absent and a leak type that is an object with a
  \<^verbatim>\<open>toString\<close> key of its own, the first substitution of the template raises a
  TypeError. With a \<^verbatim>\<open>data_submissao\<close> that is such an object, \<^verbatim>\<open>new Date\<close> raises
  it.
\<close>

theorem popup_invalid_date_counterexample:
  "member (Object [(''tipo_vazamento'', Object [(''toString'', Number (Fin 1))])])
      ''data_submissao'' = Inr Undefined
   \<and> onEachFeature (sample_host Pending)
        (sample_feature
           (Object [(''tipo_vazamento'', Object [(''toString'', Number (Fin 1))])]))
        sample_layer
      = Inl TypeError
   \<and> newDate (sample_host Pending) (Object [(''toString'', Number (Fin 1))]) = Inl TypeError
   \<and> onEachFeature (sample_host Pending)
        (sample_feature
           (Object [(''data_submissao'', Object [(''toString'', Number (Fin 1))])]))
        sample_layer
      = Inl TypeError"
  by (simp add: onEachFeature_def popupLines_def popupValues_def js_or_def newDate_def
      ToPrimitive_def)

end
